theory Spec2Isabelle
  imports Complex_Main
begin

section \<open>The Goodreads listing exporter (parse\_goodreads.py)\<close>

text \<open>
  A shallow embedding of \<^verbatim>\<open>parse_goodreads.py\<close>. Every function of the script is a
  HOL function of the same name. What the script takes from libraries is modelled by its
  documented behaviour and kept apart from the script's own functions:
  \<^item> Python strings are \<open>string\<close>; a character stands for the code point of the same
    number (below 256), so the whitespace of \<open>str.strip\<close>, \<open>str.split\<close> and the
    regular expression class \<open>\s\<close> is the set \<open>whitespace_chars\<close>;
  \<^item> a parsed document (a BeautifulSoup tree) is a \<open>node\<close>;
  \<^item> an exception is a value of \<open>py_error\<close>, and a function that can raise returns
    \<open>py_error + 'a\<close>.
\<close>

subsection \<open>Exceptions\<close>

text \<open>The classes below \<^verbatim>\<open>requests.exceptions.RequestException\<close> that matter to the
  handlers: \<^verbatim>\<open>HTTPError\<close> (raised by \<^verbatim>\<open>raise_for_status\<close>), \<^verbatim>\<open>ConnectionError\<close> and
  \<^verbatim>\<open>Timeout\<close> are siblings, and neither of the last two is an \<^verbatim>\<open>HTTPError\<close>.\<close>

datatype request_exception = HTTPError | ConnectionError | Timeout | OtherRequestException

text \<open>An exception is given by its class; a request exception also carries its message,
  the only one that the script prints from an exception value of this type.\<close>

datatype py_error =
    AttributeError
  | IndexError
  | KeyError
  | TypeError
  | ValueError
  | UnicodeDecodeError
  | OSError
  | RequestException request_exception string

subsection \<open>Strings\<close>

definition whitespace_chars :: "char list" where
  "whitespace_chars =
     [CHR 0x09, CHR 0x0A, CHR 0x0B, CHR 0x0C, CHR 0x0D, CHR 0x1C, CHR 0x1D, CHR 0x1E,
      CHR 0x1F, CHR 0x20, CHR 0x85, CHR 0xA0]"

definition is_space :: "char \<Rightarrow> bool" where
  "is_space c = (c \<in> set whitespace_chars)"

text \<open>\<^verbatim>\<open>s.strip()\<close>: leading and trailing whitespace removed.\<close>

definition strip :: "string \<Rightarrow> string" where
  "strip s = rev (dropWhile is_space (rev (dropWhile is_space s)))"

text \<open>\<^verbatim>\<open>s.split()\<close>: the maximal runs of non-whitespace characters, in order.
  \<open>split_from cur s\<close> has the token being read, reversed, in \<open>cur\<close>.\<close>

fun split_from :: "string \<Rightarrow> string \<Rightarrow> string list" where
  "split_from cur [] = (if cur = [] then [] else [rev cur])"
| "split_from cur (c # cs) =
     (if is_space c then (if cur = [] then split_from [] cs else rev cur # split_from [] cs)
      else split_from (c # cur) cs)"

definition split :: "string \<Rightarrow> string list" where
  "split s = split_from [] s"

definition digit_chars :: "char list" where
  "digit_chars = ''0123456789''"

definition is_digit :: "char \<Rightarrow> bool" where
  "is_digit c = (c \<in> set digit_chars)"

definition digit_val :: "char \<Rightarrow> nat" where
  "digit_val c = (case map_of (zip digit_chars [0, 1, 2, 3, 4, 5, 6, 7, 8, 9]) c of
                    Some n \<Rightarrow> n | None \<Rightarrow> 0)"

definition digit_char :: "nat \<Rightarrow> char" where
  "digit_char n = digit_chars ! (n mod 10)"

text \<open>The value of a string of decimal digits, most significant first.\<close>

definition digits_val :: "string \<Rightarrow> nat" where
  "digits_val ds = foldl (\<lambda>acc c. 10 * acc + digit_val c) 0 ds"

text \<open>Decimal rendering with a fixed number of digits (\<^verbatim>\<open>%02d\<close>, \<^verbatim>\<open>%04d\<close>) for
  the values that fit.\<close>

definition pad2 :: "nat \<Rightarrow> string" where
  "pad2 n = [digit_char (n div 10), digit_char n]"


text \<open>Decimal rendering without padding (\<^verbatim>\<open>str\<close> of a natural number).\<close>

function show_nat :: "nat \<Rightarrow> string" where
  "show_nat n = (if n < 10 then [digit_char n] else show_nat (n div 10) @ [digit_char n])"
  by pat_completeness auto
termination
  by (relation "measure (\<lambda>n. n)") auto

declare show_nat.simps [simp del]

text \<open>ASCII lower-casing: all that \<^verbatim>\<open>str.lower\<close> and the case-insensitive match do to
  the letters of a month name.\<close>

definition lower_char :: "char \<Rightarrow> char" where
  "lower_char c =
     (case map_of (zip ''ABCDEFGHIJKLMNOPQRSTUVWXYZ'' ''abcdefghijklmnopqrstuvwxyz'') c of
        Some l \<Rightarrow> l | None \<Rightarrow> c)"

definition lower :: "string \<Rightarrow> string" where
  "lower s = map lower_char s"

subsection \<open>Dates: \<^verbatim>\<open>datetime.strptime(s, "%b %d, %Y")\<close> and \<^verbatim>\<open>strftime("%Y-%m-%d")\<close>\<close>

record date =
  year :: nat
  month :: nat
  day :: nat

definition a_month :: "string list" where
  "a_month = [''jan'', ''feb'', ''mar'', ''apr'', ''may'', ''jun'',
              ''jul'', ''aug'', ''sep'', ''oct'', ''nov'', ''dec'']"

fun index_of :: "'a \<Rightarrow> 'a list \<Rightarrow> nat option" where
  "index_of x [] = None"
| "index_of x (y # ys) = (if x = y then Some 0 else map_option Suc (index_of x ys))"

definition is_leap :: "nat \<Rightarrow> bool" where
  "is_leap y = (y mod 4 = 0 \<and> (y mod 100 \<noteq> 0 \<or> y mod 400 = 0))"

definition days_in_month :: "nat \<Rightarrow> nat \<Rightarrow> nat" where
  "days_in_month y m =
     (if m = 2 then (if is_leap y then 29 else 28)
      else if m \<in> {4, 6, 9, 11} then 30 else 31)"

text \<open>The constructor \<^verbatim>\<open>datetime.date(year, month, day)\<close>, which raises
  \<^verbatim>\<open>ValueError\<close> outside the calendar (years 1 to 9999).\<close>

definition datetime_date :: "nat \<Rightarrow> nat \<Rightarrow> nat \<Rightarrow> py_error + date" where
  "datetime_date y m d =
     (if 1 \<le> y \<and> y \<le> 9999 \<and> 1 \<le> m \<and> m \<le> 12 \<and> 1 \<le> d \<and> d \<le> days_in_month y m
      then Inr \<lparr>year = y, month = m, day = d\<rparr> else Inl ValueError)"

text \<open>The directive \<^verbatim>\<open>%d\<close> is the regular expression
  \<^verbatim>\<open>3[0-1]|[1-2]\d|0[1-9]|[1-9]| [1-9]\<close>. After the whitespace run before it, and with a
  comma required right behind it, it accepts exactly a run of one or two digits that is
  \<open>1\<close> to \<open>9\<close>, \<open>01\<close> to \<open>09\<close> or \<open>10\<close> to \<open>31\<close>.\<close>

definition day_digits_ok :: "string \<Rightarrow> bool" where
  "day_digits_ok ds =
     (case ds of
        [a] \<Rightarrow> a \<noteq> CHR ''0''
      | [a, b] \<Rightarrow> (a = CHR ''0'' \<and> b \<noteq> CHR ''0'') \<or> a \<in> {CHR ''1'', CHR ''2''}
                  \<or> (a = CHR ''3'' \<and> b \<in> {CHR ''0'', CHR ''1''})
      | _ \<Rightarrow> False)"

text \<open>The match of the format \<^verbatim>\<open>%b %d, %Y\<close> against the whole string: a month
  abbreviation in any case, whitespace, the day, a comma, whitespace, four digits, and
  nothing after them. The result is the three groups.\<close>

definition match_b_d_Y :: "string \<Rightarrow> (string \<times> string \<times> string) option" where
  "match_b_d_Y s =
     (let b = take 3 s; r1 = drop 3 s;
          r2 = dropWhile is_space r1;
          d = takeWhile is_digit r2; r3 = dropWhile is_digit r2;
          r4 = dropWhile is_space (drop 1 r3);
          y = take 4 r4
      in if length b = 3 \<and> lower b \<in> set a_month
            \<and> r1 \<noteq> [] \<and> is_space (hd r1)
            \<and> day_digits_ok d
            \<and> take 1 r3 = '','' \<and> drop 1 r3 \<noteq> [] \<and> is_space (hd (drop 1 r3))
            \<and> length y = 4 \<and> list_all is_digit y \<and> drop 4 r4 = []
         then Some (b, d, y) else None)"

definition strptime :: "string \<Rightarrow> py_error + date" where
  "strptime s =
     (case match_b_d_Y s of
        None \<Rightarrow> Inl ValueError
      | Some (b, d, y) \<Rightarrow>
          (case index_of (lower b) a_month of
             None \<Rightarrow> Inl ValueError
           | Some i \<Rightarrow> datetime_date (digits_val y) (Suc i) (digits_val d)))"

text \<open>\<^verbatim>\<open>strftime("%Y-%m-%d")\<close> as the C library of Linux renders it: the month and the
  day with two digits, the year without padding, so a year below 1000 has fewer than
  four digits.\<close>

definition strftime :: "date \<Rightarrow> string" where
  "strftime dt = show_nat (year dt) @ ''-'' @ pad2 (month dt) @ ''-'' @ pad2 (day dt)"

subsection \<open>\<^verbatim>\<open>convert_date\<close>\<close>

text \<open>
  \<^verbatim>\<open>
  def convert_date(date_str):
      try:
          return datetime.strptime(date_str, "%b %d, %Y").strftime("%Y-%m-%d")
      except ValueError:
          return date_str
  \<close>
  Only \<^verbatim>\<open>ValueError\<close> is caught; any other exception would leave the function.
\<close>

definition convert_date :: "string \<Rightarrow> py_error + string" where
  "convert_date date_str =
     (case strptime date_str of
        Inr dt \<Rightarrow> Inr (strftime dt)
      | Inl ValueError \<Rightarrow> Inr date_str
      | Inl e \<Rightarrow> Inl e)"

subsection \<open>Parsed documents\<close>

text \<open>
  A BeautifulSoup tree: a text node, or an element with its tag name, its attribute
  dictionary (an association list with distinct keys) and its children. The methods
  \<^verbatim>\<open>find\<close> and \<^verbatim>\<open>find_all\<close> search the descendants of an element in
  document order; \<^verbatim>\<open>.text\<close> joins the text nodes below an element.
\<close>

datatype node = Text string | Element string "(string \<times> string) list" "node list"

fun descendants :: "node \<Rightarrow> node list" where
  "descendants (Text s) = []"
| "descendants (Element t a cs) = concat (map (\<lambda>c. c # descendants c) cs)"

fun get_text :: "node \<Rightarrow> string" where
  "get_text (Text s) = s"
| "get_text (Element t a cs) = concat (map get_text cs)"

fun attrs :: "node \<Rightarrow> (string \<times> string) list" where
  "attrs (Text s) = []"
| "attrs (Element t a cs) = a"

fun is_tag :: "string \<Rightarrow> node \<Rightarrow> bool" where
  "is_tag name (Text s) = False"
| "is_tag name (Element t a cs) = (t = name)"

fun join_with :: "string \<Rightarrow> string list \<Rightarrow> string" where
  "join_with sep [] = []"
| "join_with sep [x] = x"
| "join_with sep (x # y # ys) = x @ sep @ join_with sep (y # ys)"

text \<open>The keyword \<^verbatim>\<open>class_=c\<close>: the class attribute is a list of tokens, and \<open>c\<close>
  matches when it is one of the tokens or the tokens joined by single spaces.\<close>

definition has_class :: "string \<Rightarrow> node \<Rightarrow> bool" where
  "has_class c n =
     (case map_of (attrs n) ''class'' of
        None \<Rightarrow> False
      | Some v \<Rightarrow> c \<in> set (split v) \<or> join_with '' '' (split v) = c)"

definition has_id :: "string \<Rightarrow> node \<Rightarrow> bool" where
  "has_id v n = (map_of (attrs n) ''id'' = Some v)"

definition find_all :: "(node \<Rightarrow> bool) \<Rightarrow> node \<Rightarrow> node list" where
  "find_all p n = filter p (descendants n)"

definition find_elem :: "(node \<Rightarrow> bool) \<Rightarrow> node \<Rightarrow> node option" where
  "find_elem p n = (case find_all p n of [] \<Rightarrow> None | x # _ \<Rightarrow> Some x)"

definition find_tag_class :: "string \<Rightarrow> string \<Rightarrow> node \<Rightarrow> node option" where
  "find_tag_class name c n = find_elem (\<lambda>x. is_tag name x \<and> has_class c x) n"

text \<open>\<^verbatim>\<open>e.find(...)\<close> where \<open>e\<close> may be \<^verbatim>\<open>None\<close>: the attribute lookup on
  \<^verbatim>\<open>None\<close> raises \<^verbatim>\<open>AttributeError\<close>.\<close>

definition find_on :: "node option \<Rightarrow> (node \<Rightarrow> bool) \<Rightarrow> py_error + node option" where
  "find_on e p = (case e of None \<Rightarrow> Inl AttributeError | Some n \<Rightarrow> Inr (find_elem p n))"

text \<open>\<^verbatim>\<open>e["key"]\<close> on an element.\<close>

definition getitem :: "node \<Rightarrow> string \<Rightarrow> py_error + string" where
  "getitem n k = (case map_of (attrs n) k of None \<Rightarrow> Inl KeyError | Some v \<Rightarrow> Inr v)"

subsection \<open>\<^verbatim>\<open>get_text_or_default\<close> and \<^verbatim>\<open>process_review_row\<close>\<close>

text \<open>\<^verbatim>\<open>return element.text.strip() if element else default\<close>; an element is always
  true.\<close>

definition get_text_or_default :: "node option \<Rightarrow> string \<Rightarrow> string" where
  "get_text_or_default element dflt =
     (case element of Some e \<Rightarrow> strip (get_text e) | None \<Rightarrow> dflt)"

text \<open>The expression
  \<^verbatim>\<open>get_text_or_default(row.find("td", class_=c).find(name, ...))\<close> of the title, the two
  dates and the author.\<close>

definition cell_text :: "node \<Rightarrow> string \<Rightarrow> (node \<Rightarrow> bool) \<Rightarrow> py_error + string" where
  "cell_text row c p =
     (case find_on (find_tag_class ''td'' c row) p of
        Inl e \<Rightarrow> Inl e
      | Inr el \<Rightarrow> Inr (get_text_or_default el ''''))"

definition book_title_of :: "node \<Rightarrow> py_error + string" where
  "book_title_of row = cell_text row ''field title'' (is_tag ''a'')"

definition date_started_of :: "node \<Rightarrow> py_error + string" where
  "date_started_of row =
     cell_text row ''field date_started''
       (\<lambda>x. is_tag ''span'' x \<and> has_class ''date_started_value'' x)"

definition date_read_of :: "node \<Rightarrow> py_error + string" where
  "date_read_of row =
     cell_text row ''field date_read''
       (\<lambda>x. is_tag ''span'' x \<and> has_class ''date_read_value'' x)"

definition goodreads_id_of :: "node \<Rightarrow> py_error + string" where
  "goodreads_id_of row =
     (case find_tag_class ''div'' ''js-tooltipTrigger'' row of
        Some d \<Rightarrow> getitem d ''data-resource-id''
      | None \<Rightarrow> Inr '''')"

definition author_of :: "node \<Rightarrow> py_error + string" where
  "author_of row = cell_text row ''field author'' (is_tag ''a'')"

definition avg_rating_of :: "node \<Rightarrow> string" where
  "avg_rating_of row = get_text_or_default (find_tag_class ''td'' ''field avg_rating'' row) ''''"

text \<open>
  \<^verbatim>\<open>
  num_pages = (
      get_text_or_default(row.find("td", class_="field num_pages").find("nobr")).split()[0]
      if row.find("td", class_="field num_pages").find("nobr")
      else ""
  )
  \<close>
  The condition is evaluated first; the index \<^verbatim>\<open>[0]\<close> raises on an empty list.
\<close>

definition num_pages_of :: "node \<Rightarrow> py_error + string" where
  "num_pages_of row =
     (case find_on (find_tag_class ''td'' ''field num_pages'' row) (is_tag ''nobr'') of
        Inl e \<Rightarrow> Inl e
      | Inr None \<Rightarrow> Inr ''''
      | Inr (Some n) \<Rightarrow>
          (case find_on (find_tag_class ''td'' ''field num_pages'' row) (is_tag ''nobr'') of
             Inl e \<Rightarrow> Inl e
           | Inr el \<Rightarrow>
               (case split (get_text_or_default el '''') of
                  [] \<Rightarrow> Inl IndexError
                | tok # _ \<Rightarrow> Inr tok)))"

text \<open>Sequencing of steps that may raise: the first exception ends the function.\<close>

definition and_then :: "py_error + 'a \<Rightarrow> ('a \<Rightarrow> py_error + 'b) \<Rightarrow> py_error + 'b" where
  "and_then m f = (case m of Inl e \<Rightarrow> Inl e | Inr v \<Rightarrow> f v)"

text \<open>The dictionary that \<^verbatim>\<open>process_review_row\<close> returns, as the list of its items
  in insertion order. The statements run in the order of the source.\<close>

definition process_review_row :: "node \<Rightarrow> py_error + (string \<times> string) list" where
  "process_review_row row =
     and_then (book_title_of row) (\<lambda>book_title.
     and_then (date_started_of row) (\<lambda>date_started0.
     and_then (date_read_of row) (\<lambda>date_read0.
     and_then (goodreads_id_of row) (\<lambda>goodreads_id.
     and_then (convert_date date_started0) (\<lambda>date_started.
     and_then (convert_date date_read0) (\<lambda>date_read.
     and_then (author_of row) (\<lambda>author.
     and_then (Inr (avg_rating_of row)) (\<lambda>avg_rating.
     and_then (num_pages_of row) (\<lambda>num_pages.
       Inr [(''Goodreads ID'', goodreads_id),
            (''Book Title'', book_title),
            (''Date Started'', date_started),
            (''Date Read'', date_read),
            (''Author'', author),
            (''Average Rating'', avg_rating),
            (''Number of Pages'', num_pages)])))))))))"

subsection \<open>Numbers as text\<close>

definition show_int :: "int \<Rightarrow> string" where
  "show_int i = (if i < 0 then CHR ''-'' # show_nat (nat (- i)) else show_nat (nat i))"

text \<open>A non-empty run of digits in which single underscores may stand between digits:
  what \<^verbatim>\<open>int\<close> accepts after the sign.\<close>

fun digits_us :: "string \<Rightarrow> bool" where
  "digits_us [] = False"
| "digits_us [c] = is_digit c"
| "digits_us (c # d # cs) =
     (is_digit c \<and> (if d = CHR ''_'' then digits_us cs else digits_us (d # cs)))"

text \<open>\<^verbatim>\<open>int(s)\<close> on a string: surrounding whitespace is ignored, a sign may come
  first, and anything else raises \<^verbatim>\<open>ValueError\<close>.\<close>

definition py_int :: "string \<Rightarrow> py_error + int" where
  "py_int s =
     (let t = strip s;
          neg = (take 1 t = ''-'');
          body = (if take 1 t = ''-'' \<or> take 1 t = ''+'' then drop 1 t else t)
      in if digits_us body
         then Inr ((if neg then - 1 else 1) * int (digits_val (filter (\<lambda>c. c \<noteq> CHR ''_'') body)))
         else Inl ValueError)"

subsection \<open>JSON values\<close>

text \<open>What \<^verbatim>\<open>json.load\<close> returns: \<^verbatim>\<open>None\<close>, a truth value, a number (an integer or a
  finite float, given by its value), a string, a list, or a dictionary with string keys,
  given as the list of its items.\<close>

datatype json =
    JNull
  | JBool bool
  | JNum rat
  | JStr string
  | JArr "json list"
  | JObj "(string \<times> json) list"

text \<open>The truth value of an object in a condition.\<close>

fun truthy :: "json \<Rightarrow> bool" where
  "truthy JNull = False"
| "truthy (JBool b) = b"
| "truthy (JNum r) = (r \<noteq> 0)"
| "truthy (JStr s) = (s \<noteq> [])"
| "truthy (JArr xs) = (xs \<noteq> [])"
| "truthy (JObj kvs) = (kvs \<noteq> [])"

text \<open>\<^verbatim>\<open>for x in v\<close>: a list gives its elements, a dictionary its keys, a string its
  characters; nothing else can be iterated.\<close>

fun iter_json :: "json \<Rightarrow> py_error + json list" where
  "iter_json (JArr xs) = Inr xs"
| "iter_json (JObj kvs) = Inr (map (\<lambda>kv. JStr (fst kv)) kvs)"
| "iter_json (JStr s) = Inr (map (\<lambda>c. JStr [c]) s)"
| "iter_json v = Inl TypeError"

text \<open>\<^verbatim>\<open>v.get(k, d)\<close>: only a dictionary has the method.\<close>

fun json_get :: "json \<Rightarrow> string \<Rightarrow> json \<Rightarrow> py_error + json" where
  "json_get (JObj kvs) k d = Inr (case map_of kvs k of Some v \<Rightarrow> v | None \<Rightarrow> d)"
| "json_get v k d = Inl AttributeError"

text \<open>\<^verbatim>\<open>v[k]\<close> with a string \<open>k\<close>: a missing key of a dictionary raises
  \<^verbatim>\<open>KeyError\<close>, and a value of another type cannot be indexed by a string.\<close>

fun json_item :: "json \<Rightarrow> string \<Rightarrow> py_error + json" where
  "json_item (JObj kvs) k = (case map_of kvs k of Some v \<Rightarrow> Inr v | None \<Rightarrow> Inl KeyError)"
| "json_item v k = Inl TypeError"

definition startswith :: "string \<Rightarrow> string \<Rightarrow> bool" where
  "startswith s p = (take (length p) s = p)"

text \<open>\<^verbatim>\<open>v.startswith(p)\<close>: only a string has the method.\<close>

fun json_startswith :: "json \<Rightarrow> string \<Rightarrow> py_error + bool" where
  "json_startswith (JStr s) p = Inr (startswith s p)"
| "json_startswith v p = Inl AttributeError"

text \<open>Keys of a Python dictionary: lists and dictionaries cannot be keys, and two keys are
  the same key when they are equal, where \<^verbatim>\<open>True\<close> and \<^verbatim>\<open>False\<close> are the numbers
  1 and 0. An assignment to a key that is there keeps the key and replaces the value.\<close>

fun hashable :: "json \<Rightarrow> bool" where
  "hashable (JArr xs) = False"
| "hashable (JObj kvs) = False"
| "hashable v = True"

fun num_of :: "json \<Rightarrow> rat option" where
  "num_of (JBool b) = Some (if b then 1 else 0)"
| "num_of (JNum r) = Some r"
| "num_of v = None"

definition py_eq :: "json \<Rightarrow> json \<Rightarrow> bool" where
  "py_eq a b =
     (case (num_of a, num_of b) of
        (Some x, Some y) \<Rightarrow> x = y
      | (None, None) \<Rightarrow> a = b
      | _ \<Rightarrow> False)"

fun dict_set :: "json \<Rightarrow> json \<Rightarrow> (json \<times> json) list \<Rightarrow> (json \<times> json) list" where
  "dict_set k v [] = [(k, v)]"
| "dict_set k v (kv # d) = (if py_eq k (fst kv) then (fst kv, v) # d else kv # dict_set k v d)"

subsection \<open>Cookies and \<^verbatim>\<open>fetch_html\<close>\<close>

text \<open>\<^verbatim>\<open>d.get(key, default)\<close> on a key that may be missing.\<close>

definition get_or :: "'a option \<Rightarrow> 'a \<Rightarrow> 'a" where
  "get_or v d = (case v of Some x \<Rightarrow> x | None \<Rightarrow> d)"

text \<open>The condition of line 63:
  \<^verbatim>\<open>not cookie.get('hostOnly', False) or (cookie.get('domain', '').startswith('.goodreads.com')
     or cookie.get('domain', '') == 'www.goodreads.com')\<close>.
  The domain is looked at only when \<^verbatim>\<open>hostOnly\<close> is true.\<close>

definition cookie_selected :: "json \<Rightarrow> py_error + bool" where
  "cookie_selected c =
     and_then (json_get c ''hostOnly'' (JBool False)) (\<lambda>host_only.
       if \<not> truthy host_only then Inr True
       else
         and_then (json_get c ''domain'' (JStr '''')) (\<lambda>domain.
         and_then (json_startswith domain ''.goodreads.com'') (\<lambda>dotted.
           if dotted then Inr True
           else and_then (json_get c ''domain'' (JStr '''')) (\<lambda>domain2.
                  Inr (domain2 = JStr ''www.goodreads.com'')))))"

text \<open>The loop that fills \<^verbatim>\<open>cookie_dict\<close>, the dictionary being the list of its items
  in insertion order. In \<^verbatim>\<open>cookie_dict[cookie['name']] = cookie['value']\<close> the value is
  evaluated before the name.\<close>

fun cookie_dict_loop :: "json list \<Rightarrow> (json \<times> json) list \<Rightarrow> py_error + (json \<times> json) list" where
  "cookie_dict_loop [] d = Inr d"
| "cookie_dict_loop (c # cs) d =
     (case cookie_selected c of
        Inl e \<Rightarrow> Inl e
      | Inr selected \<Rightarrow>
          if selected then
            (case json_item c ''value'' of
               Inl e \<Rightarrow> Inl e
             | Inr v \<Rightarrow>
                 (case json_item c ''name'' of
                    Inl e \<Rightarrow> Inl e
                  | Inr n \<Rightarrow>
                      if hashable n then cookie_dict_loop cs (dict_set n v d) else Inl TypeError))
          else cookie_dict_loop cs d)"

text \<open>The dictionary handed to \<^verbatim>\<open>session.cookies.update\<close>; nothing is handed over when
  \<^verbatim>\<open>cookies\<close> is false in the condition \<^verbatim>\<open>if cookies:\<close>.\<close>

definition session_cookies :: "json \<Rightarrow> py_error + (json \<times> json) list" where
  "session_cookies cookies =
     (if truthy cookies then and_then (iter_json cookies) (\<lambda>cs. cookie_dict_loop cs [])
      else Inr [])"

text \<open>An outgoing request: the user and page that make up the URL, and the cookie
  dictionary given to the session. The headers are the same for every request. The URL
  is \<^verbatim>\<open>base_url.format(page)\<close>, with the user id already in \<^verbatim>\<open>base_url\<close>; the model
  covers user ids without braces, in which \<^verbatim>\<open>format\<close> finds the page field only.\<close>

record request =
  req_user :: string
  req_page :: int
  req_cookies :: "(json \<times> json) list"

text \<open>The network: the answer to the \<open>k\<close>-th request of the run, either the exception
  that \<^verbatim>\<open>session.get\<close> or \<^verbatim>\<open>raise_for_status\<close> raises, or the body of the response,
  given as the tree that \<^verbatim>\<open>BeautifulSoup(body, "html.parser")\<close> builds from it.\<close>

type_synonym network = "nat \<Rightarrow> request \<Rightarrow> py_error + node"

subsection \<open>The world of a run\<close>

text \<open>The file \<^verbatim>\<open>cookies.json\<close>: absent, impossible to open, not text in the encoding
  of the platform, text that is not JSON, or a JSON value.\<close>

datatype cookie_file = NoFile | CannotOpen | Undecodable | InvalidJSON | Loaded json

datatype file_event = OpenWrite string | OpenRead string

text \<open>The state a run reads and changes: the credential file, the TSV files by name
  (a file is the list of the rows written to it, a row the list of its fields), the names
  that cannot be opened for writing, the lines printed, the requests sent, the seconds
  slept and the files opened.\<close>

record world =
  cookies_json :: cookie_file
  files :: "string \<Rightarrow> string list list option"
  unwritable :: "string \<Rightarrow> bool"
  stdout :: "string list"
  requests :: "request list"
  slept :: nat
  file_log :: "file_event list"

definition print :: "string \<Rightarrow> world \<Rightarrow> world" where
  "print s w = w\<lparr>stdout := stdout w @ [s]\<rparr>"

fun print_all :: "string list \<Rightarrow> world \<Rightarrow> world" where
  "print_all [] w = w"
| "print_all (s # ss) w = print_all ss (print s w)"

text \<open>
  \<^verbatim>\<open>
  session = requests.Session()
  if cookies:
      ...
      session.cookies.update(cookie_dict)
  try:
      response = session.get(url, headers=headers, timeout=30)
      response.raise_for_status()
      return response.text
  except requests.exceptions.RequestException as e:
      raise
  \<close>
  The handler re-raises, so the caller sees whatever the request raised; an exception of
  the cookie loop is raised before any request is sent.
\<close>

definition fetch_html ::
  "network \<Rightarrow> string \<Rightarrow> int \<Rightarrow> json \<Rightarrow> world \<Rightarrow> (py_error + node) \<times> world" where
  "fetch_html net user_id page cookies w =
     (case session_cookies cookies of
        Inl e \<Rightarrow> (Inl e, w)
      | Inr cookie_dict \<Rightarrow>
          (let req = \<lparr>req_user = user_id, req_page = page, req_cookies = cookie_dict\<rparr>
           in (net (length (requests w)) req, w\<lparr>requests := requests w @ [req]\<rparr>)))"

subsection \<open>The output file and \<^verbatim>\<open>csv.DictWriter\<close>\<close>

definition fieldnames :: "string list" where
  "fieldnames = [''Goodreads ID'', ''Book Title'', ''Date Started'', ''Date Read'',
                 ''Author'', ''Average Rating'', ''Number of Pages'']"

text \<open>\<^verbatim>\<open>DictWriter._dict_to_list\<close>: a key that is not a field name raises
  \<^verbatim>\<open>ValueError\<close>; the values are listed in the order of the field names, a missing one
  as the empty string.\<close>

definition dict_to_list :: "string list \<Rightarrow> (string \<times> string) list \<Rightarrow> py_error + string list" where
  "dict_to_list fns rowdict =
     (if list_ex (\<lambda>k. k \<notin> set fns) (map fst rowdict) then Inl ValueError
      else Inr (map (\<lambda>k. get_or (map_of rowdict k) '''') fns))"

text \<open>\<^verbatim>\<open>open(output_file, "w", ...)\<close> creates the file or empties it.\<close>

definition open_write :: "string \<Rightarrow> world \<Rightarrow> world" where
  "open_write f w = w\<lparr>files := (files w)(f \<mapsto> []), file_log := file_log w @ [OpenWrite f]\<rparr>"

definition write_row :: "string \<Rightarrow> string list \<Rightarrow> world \<Rightarrow> world" where
  "write_row f r w = w\<lparr>files := (files w)(f \<mapsto> get_or (files w f) [] @ [r])\<rparr>"

subsection \<open>\<^verbatim>\<open>download_and_process_goodreads_data\<close>\<close>

text \<open>Lines 122 to 131: \<^verbatim>\<open>cookies\<close> starts as \<^verbatim>\<open>None\<close> and is loaded when
  \<^verbatim>\<open>cookies.json\<close> exists. Of the exceptions of \<^verbatim>\<open>open\<close> and \<^verbatim>\<open>json.load\<close> only
  \<^verbatim>\<open>json.JSONDecodeError\<close> is caught; it leaves \<^verbatim>\<open>cookies = None\<close>.\<close>

definition load_cookies :: "world \<Rightarrow> (py_error + json) \<times> world" where
  "load_cookies w =
     (case cookies_json w of
        NoFile \<Rightarrow> (Inr JNull, w)
      | CannotOpen \<Rightarrow> (Inl OSError, w)
      | Undecodable \<Rightarrow>
          (Inl UnicodeDecodeError, w\<lparr>file_log := file_log w @ [OpenRead ''cookies.json'']\<rparr>)
      | InvalidJSON \<Rightarrow>
          (Inr JNull,
           print ''Warning: cookies.json exists but is not valid JSON. Proceeding without cookies.''
             (w\<lparr>file_log := file_log w @ [OpenRead ''cookies.json'']\<rparr>))
      | Loaded v \<Rightarrow> (Inr v, w\<lparr>file_log := file_log w @ [OpenRead ''cookies.json'']\<rparr>))"

text \<open>\<^verbatim>\<open>xs[-k]\<close> for a positive \<open>k\<close>.\<close>

definition index_from_end :: "'a list \<Rightarrow> nat \<Rightarrow> py_error + 'a" where
  "index_from_end xs k =
     (if 0 < k \<and> k \<le> length xs then Inr (xs ! (length xs - k)) else Inl IndexError)"

text \<open>Lines 153 to 158, on the tree of the first page.\<close>

definition total_pages_of :: "node \<Rightarrow> world \<Rightarrow> (py_error + int) \<times> world" where
  "total_pages_of soup w =
     (case find_elem (\<lambda>x. is_tag ''div'' x \<and> has_id ''reviewPagination'' x) soup of
        Some pagination \<Rightarrow>
          (and_then (index_from_end (find_all (is_tag ''a'') pagination) 2)
             (\<lambda>a. py_int (strip (get_text a))), w)
      | None \<Rightarrow>
          (Inr 1, print ''Could not determine total pages. Processing first page only.'' w))"

definition review_rows_of :: "node \<Rightarrow> node list" where
  "review_rows_of soup = find_all (\<lambda>x. is_tag ''tr'' x \<and> has_class ''bookalike review'' x) soup"

text \<open>Lines 170 to 172: each row is processed and written at once, so the rows before a
  row that raises are in the file already.\<close>

fun process_rows :: "string \<Rightarrow> node list \<Rightarrow> world \<Rightarrow> (py_error + unit) \<times> world" where
  "process_rows f [] w = (Inr (), w)"
| "process_rows f (row # rows) w =
     (case and_then (process_review_row row) (dict_to_list fieldnames) of
        Inl e \<Rightarrow> (Inl e, w)
      | Inr r \<Rightarrow> process_rows f rows (write_row f r w))"

text \<open>Lines 161 to 175: the loop over the pages still to do.\<close>

fun process_pages ::
  "network \<Rightarrow> string \<Rightarrow> json \<Rightarrow> string \<Rightarrow> int \<Rightarrow> int list \<Rightarrow> world
     \<Rightarrow> (py_error + unit) \<times> world" where
  "process_pages net user_id cookies f total_pages [] w = (Inr (), w)"
| "process_pages net user_id cookies f total_pages (page # pages) w =
     (case fetch_html net user_id page cookies
             (print (''Processing page '' @ show_int page @ '' of '' @ show_int total_pages @ ''...'') w) of
        (Inl e, w1) \<Rightarrow> (Inl e, w1)
      | (Inr soup, w1) \<Rightarrow>
          (case process_rows f (review_rows_of soup) w1 of
             (Inl e, w2) \<Rightarrow> (Inl e, w2)
           | (Inr u, w2) \<Rightarrow>
               process_pages net user_id cookies f total_pages pages (w2\<lparr>slept := slept w2 + 1\<rparr>)))"

text \<open>The body of the \<^verbatim>\<open>try\<close> statement, lines 149 to 178.\<close>

definition try_body ::
  "network \<Rightarrow> string \<Rightarrow> string \<Rightarrow> json \<Rightarrow> world \<Rightarrow> (py_error + bool) \<times> world" where
  "try_body net user_id output_file cookies w =
     (case fetch_html net user_id 1 cookies w of
        (Inl e, w1) \<Rightarrow> (Inl e, w1)
      | (Inr soup, w1) \<Rightarrow>
          (case total_pages_of soup w1 of
             (Inl e, w2) \<Rightarrow> (Inl e, w2)
           | (Inr total_pages, w2) \<Rightarrow>
               (case process_pages net user_id cookies output_file total_pages [1..total_pages] w2 of
                  (Inl e, w3) \<Rightarrow> (Inl e, w3)
                | (Inr u, w3) \<Rightarrow>
                    (Inr True,
                     print (''Successfully processed '' @ show_int total_pages
                              @ '' pages of Goodreads data.'') w3))))"

definition http_error_lines :: "string \<Rightarrow> string list" where
  "http_error_lines msg =
     [''Error downloading data: '' @ msg,
      ''This might be due to:'',
      ''1. Invalid user ID'',
      ''2. Profile is private'',
      ''3. Missing or invalid cookies'']"

text \<open>The whole function. An exception of the cookie file or of \<^verbatim>\<open>open\<close> leaves the
  function before anything is written. The handler of line 180 catches
  \<^verbatim>\<open>requests.exceptions.HTTPError\<close> and nothing else; any other exception leaves the
  function, after the \<^verbatim>\<open>with\<close> statement has closed the file.\<close>

definition download_and_process_goodreads_data ::
  "network \<Rightarrow> string \<Rightarrow> string \<Rightarrow> world \<Rightarrow> (py_error + bool) \<times> world" where
  "download_and_process_goodreads_data net user_id output_file w =
     (case load_cookies w of
        (Inl e, w1) \<Rightarrow> (Inl e, w1)
      | (Inr cookies, w1) \<Rightarrow>
          if unwritable w1 output_file then (Inl OSError, w1)
          else
            (case try_body net user_id output_file cookies
                    (write_row output_file fieldnames (open_write output_file w1)) of
               (Inl (RequestException HTTPError msg), w2) \<Rightarrow>
                 (Inr False, print_all (http_error_lines msg) w2)
             | (Inl e, w2) \<Rightarrow> (Inl e, w2)
             | (Inr b, w2) \<Rightarrow> (Inr b, w2)))"

subsection \<open>\<^verbatim>\<open>main\<close> and the check of the Date Read column\<close>

text \<open>\<^verbatim>\<open>row.get("Date Read", "").strip()\<close> on a row of \<^verbatim>\<open>csv.DictReader\<close>: the row is
  \<^verbatim>\<open>dict(zip(fieldnames, row))\<close>, and a field name beyond the end of a short row has the
  value \<^verbatim>\<open>None\<close>, on which the attribute \<^verbatim>\<open>strip\<close> is missing.\<close>

definition row_get_stripped :: "string list \<Rightarrow> string list \<Rightarrow> string \<Rightarrow> py_error + string" where
  "row_get_stripped header r k =
     (if k \<in> set (drop (length r) header) then Inl AttributeError
      else Inr (strip (get_or (map_of (rev (zip header r)) k) '''')))"

text \<open>\<^verbatim>\<open>any(row.get("Date Read", "").strip() for row in reader)\<close> stops at the first
  row with a non-empty value.\<close>

fun any_date_read :: "string list \<Rightarrow> string list list \<Rightarrow> py_error + bool" where
  "any_date_read header [] = Inr False"
| "any_date_read header (r # rs) =
     (case row_get_stripped header r ''Date Read'' of
        Inl e \<Rightarrow> Inl e
      | Inr v \<Rightarrow> (if v \<noteq> [] then Inr True else any_date_read header rs))"

definition advisory_lines :: "string list" where
  "advisory_lines =
     [[CHR 0x0A, CHR 0xE2, CHR 0x9A, CHR 0xA0, CHR 0xEF, CHR 0xB8, CHR 0x8F]
        @ ''  WARNING: The '' @ [CHR 0x27] @ ''Date Read'' @ [CHR 0x27]
        @ '' column appears to be empty for all books.'',
      ''Please ensure the '' @ [CHR 0x27] @ ''Date Read'' @ [CHR 0x27]
        @ '' column is visible in your Goodreads library view.'',
      ''To do this:'',
      ''  1. Go to your Goodreads library'',
      ''  2. Click '' @ [CHR 0x27] @ ''edit'' @ [CHR 0x27] @ '' at the top of the columns'',
      ''  3. Make sure '' @ [CHR 0x27] @ ''Date Read'' @ [CHR 0x27] @ '' is checked/visible'',
      ''  4. Re-run this script after making the column visible'']"

text \<open>The two exceptions that the check can meet, as \<^verbatim>\<open>str(e)\<close> prints them: the file
  is not there (the name is printed between quotes), and the value \<^verbatim>\<open>None\<close> of a short
  row.\<close>

definition no_such_file_text :: "string \<Rightarrow> string" where
  "no_such_file_text f =
     ''[Errno 2] No such file or directory: '' @ [CHR 0x27] @ f @ [CHR 0x27]"

definition none_strip_text :: string where
  "none_strip_text =
     [CHR 0x27] @ ''NoneType'' @ [CHR 0x27] @ '' object has no attribute ''
       @ [CHR 0x27] @ ''strip'' @ [CHR 0x27]"

text \<open>Lines 196 to 210. The reader takes the first non-empty row as the header and skips
  empty rows; every exception is caught and printed as a warning. The only exception of
  \<open>any_date_read\<close> is the \<^verbatim>\<open>AttributeError\<close> of \<open>row_get_stripped\<close>. The warning sign of
  the first advisory line is written as its UTF-8 bytes.\<close>

definition check_date_read :: "string \<Rightarrow> world \<Rightarrow> world" where
  "check_date_read output_file w =
     (case files w output_file of
        None \<Rightarrow>
          print (''Warning: Could not verify Date Read column: '' @ no_such_file_text output_file) w
      | Some rows \<Rightarrow>
          (case (case filter (\<lambda>r. r \<noteq> []) rows of
                   [] \<Rightarrow> Inr False
                 | header # data \<Rightarrow> any_date_read header data) of
             Inl e \<Rightarrow>
               print (''Warning: Could not verify Date Read column: '' @ none_strip_text)
                 (w\<lparr>file_log := file_log w @ [OpenRead output_file]\<rparr>)
           | Inr has_any_date_read \<Rightarrow>
               (if \<not> has_any_date_read
                then print_all advisory_lines (w\<lparr>file_log := file_log w @ [OpenRead output_file]\<rparr>)
                else w\<lparr>file_log := file_log w @ [OpenRead output_file]\<rparr>)))"

text \<open>\<^verbatim>\<open>main\<close>, with the two command-line arguments that \<^verbatim>\<open>docopt\<close> delivers.\<close>

definition main :: "network \<Rightarrow> string \<Rightarrow> string \<Rightarrow> world \<Rightarrow> (py_error + unit) \<times> world" where
  "main net user_id output w =
     (case download_and_process_goodreads_data net user_id output w of
        (Inl e, w1) \<Rightarrow> (Inl e, w1)
      | (Inr ok, w1) \<Rightarrow>
          (if ok then
             (Inr (), check_date_read output (print (''Data successfully written to '' @ output) w1))
           else (Inr (), print ''Failed to process Goodreads data.'' w1)))"

section \<open>Example inputs\<close>

definition td :: "string \<Rightarrow> node list \<Rightarrow> node" where
  "td c xs = Element ''td'' [(''class'', c)] xs"

definition anchor :: "string \<Rightarrow> node" where
  "anchor t = Element ''a'' [] [Text t]"

text \<open>A row with every field, one with the five cells but nothing in them, one whose
  page-count element holds only whitespace, and one without any cell.\<close>

definition full_row :: node where
  "full_row =
     Element ''tr'' [(''class'', ''bookalike review'')]
       [Element ''div'' [(''class'', ''js-tooltipTrigger book''), (''data-resource-id'', ''44767458'')] [],
        td ''field title'' [Element ''div'' [(''class'', ''value'')] [anchor '' Dune '']],
        td ''field author'' [anchor ''Herbert, Frank''],
        td ''field num_pages'' [Element ''nobr'' [] [Text '' 612 '', Element ''span'' [] [Text ''pp'']]],
        td ''field avg_rating'' [Text '' 4.25 ''],
        td ''field date_started''
          [Element ''span'' [(''class'', ''date_started_value'')] [Text ''Jan 5, 2023'']],
        td ''field date_read''
          [Element ''span'' [(''class'', ''date_read_value'')] [Text ''not set'']]]"

definition bare_row :: node where
  "bare_row =
     Element ''tr'' [(''class'', ''bookalike review'')]
       [td ''field title'' [], td ''field author'' [], td ''field num_pages'' [],
        td ''field date_started'' [], td ''field date_read'' []]"

definition blank_nobr_row :: node where
  "blank_nobr_row =
     Element ''tr'' [(''class'', ''bookalike review'')]
       [td ''field title'' [anchor ''Dune''], td ''field author'' [anchor ''Herbert, Frank''],
        td ''field num_pages'' [Element ''nobr'' [] [Text ''  '']],
        td ''field date_started'' [], td ''field date_read'' []]"

definition cell_less_row :: node where
  "cell_less_row = Element ''tr'' [(''class'', ''bookalike review'')] []"

text \<open>A row whose page-count element is blank and whose title cell is missing, and a
  row whose tooltip element has no \<^verbatim>\<open>data-resource-id\<close> and whose author cell is
  missing.\<close>

definition untitled_blank_nobr_row :: node where
  "untitled_blank_nobr_row =
     Element ''tr'' [(''class'', ''bookalike review'')]
       [td ''field author'' [anchor ''Herbert, Frank''],
        td ''field num_pages'' [Element ''nobr'' [] [Text ''  '']],
        td ''field date_started'' [], td ''field date_read'' []]"

definition bad_tooltip_row :: node where
  "bad_tooltip_row =
     Element ''tr'' [(''class'', ''bookalike review'')]
       [Element ''div'' [(''class'', ''js-tooltipTrigger'')] [],
        td ''field title'' [anchor ''Dune''], td ''field num_pages'' [],
        td ''field date_started'' [], td ''field date_read'' []]"

text \<open>The state before a run in a directory without \<^verbatim>\<open>cookies.json\<close> and without
  files.\<close>

definition world0 :: world where
  "world0 = \<lparr>cookies_json = NoFile, files = (\<lambda>f. None), unwritable = (\<lambda>f. False),
             stdout = [], requests = [], slept = 0,
             file_log = []\<rparr>"

section \<open>Properties\<close>

subsection \<open>Digits and whitespace\<close>








lemma split_from_spaces: "list_all is_space s \<Longrightarrow> split_from [] s = []"
  by (induction s) auto

lemma split_from_nonempty: "tok \<in> set (split_from cur s) \<Longrightarrow> tok \<noteq> []"
  by (induction cur s rule: split_from.induct) (auto split: if_splits)

lemma strip_spaces: "list_all is_space s \<Longrightarrow> strip s = []"
  by (induction s) (auto simp: strip_def)

lemma convert_date_total: "\<exists>r. convert_date s = Inr r"
  by (auto simp: convert_date_def strptime_def datetime_date_def
           split: sum.splits py_error.splits option.splits prod.splits)


subsection \<open>The fields of a row\<close>

lemma convert_date_never_raises: "convert_date s \<noteq> Inl e"
  using convert_date_total [of s] by auto

lemma convert_date_empty: "convert_date [] = Inr []"
  by code_simp

lemma dropWhile_keeps: "\<not> list_all P s \<Longrightarrow> \<not> list_all P (dropWhile P s)"
  by (induction s) auto

lemma strip_not_blank: "\<not> list_all is_space s \<Longrightarrow> \<not> list_all is_space (strip s)"
proof -
  assume "\<not> list_all is_space s"
  then have "\<not> list_all is_space (rev (dropWhile is_space s))"
    using dropWhile_keeps [of is_space s] by (simp add: list_all_iff)
  then have "\<not> list_all is_space (dropWhile is_space (rev (dropWhile is_space s)))"
    by (rule dropWhile_keeps)
  then show ?thesis by (simp add: strip_def list_all_iff)
qed

lemma split_from_Nil_iff: "split_from cur s = [] \<longleftrightarrow> cur = [] \<and> list_all is_space s"
  by (induction cur s rule: split_from.induct) auto

lemma split_strip_Nil_iff: "split (strip s) = [] \<longleftrightarrow> list_all is_space s"
  using strip_not_blank [of s] strip_spaces [of s] split_from_Nil_iff [of "[]" "strip s"]
  by (auto simp: split_def)

lemma split_token_nonempty: "split s = tok # toks \<Longrightarrow> tok \<noteq> []"
  using split_from_nonempty [of tok "[]" s] by (simp add: split_def)

lemma get_text_or_default_None: "get_text_or_default None d = d"
  by (simp add: get_text_or_default_def)

lemma cell_text_present:
  "find_tag_class ''td'' c row = Some cell \<Longrightarrow>
   cell_text row c p = Inr (get_text_or_default (find_elem p cell) [])"
  by (simp add: cell_text_def find_on_def)

lemma cell_text_absent:
  "find_tag_class ''td'' c row = None \<Longrightarrow> cell_text row c p = Inl AttributeError"
  by (simp add: cell_text_def find_on_def)

lemma cell_text_error: "cell_text row c p = Inl e \<Longrightarrow> e = AttributeError"
  by (auto simp: cell_text_def find_on_def split: option.splits)

lemma goodreads_id_of_absent:
  "find_tag_class ''div'' ''js-tooltipTrigger'' row = None \<Longrightarrow> goodreads_id_of row = Inr []"
  by (simp add: goodreads_id_of_def)

lemma goodreads_id_of_present:
  "find_tag_class ''div'' ''js-tooltipTrigger'' row = Some d \<Longrightarrow>
   goodreads_id_of row
     = (case map_of (attrs d) ''data-resource-id'' of None \<Rightarrow> Inl KeyError | Some v \<Rightarrow> Inr v)"
  by (simp add: goodreads_id_of_def getitem_def)

lemma goodreads_id_of_error: "goodreads_id_of row = Inl e \<Longrightarrow> e = KeyError"
  by (auto simp: goodreads_id_of_def getitem_def split: option.splits)

lemma num_pages_of_no_cell:
  "find_tag_class ''td'' ''field num_pages'' row = None \<Longrightarrow> num_pages_of row = Inl AttributeError"
  by (simp add: num_pages_of_def find_on_def)

lemma num_pages_of_no_nobr:
  "find_tag_class ''td'' ''field num_pages'' row = Some cell \<Longrightarrow>
   find_elem (is_tag ''nobr'') cell = None \<Longrightarrow> num_pages_of row = Inr []"
  by (simp add: num_pages_of_def find_on_def)

lemma num_pages_of_blank:
  assumes "find_tag_class ''td'' ''field num_pages'' row = Some cell"
    and "find_elem (is_tag ''nobr'') cell = Some nb"
    and "list_all is_space (get_text nb)"
  shows "num_pages_of row = Inl IndexError"
proof -
  from assms(3) have "split (strip (get_text nb)) = []"
    by (simp add: split_strip_Nil_iff)
  then show ?thesis
    using assms(1,2) by (simp add: num_pages_of_def find_on_def get_text_or_default_def)
qed

lemma num_pages_of_text:
  assumes "find_tag_class ''td'' ''field num_pages'' row = Some cell"
    and "find_elem (is_tag ''nobr'') cell = Some nb"
    and "\<not> list_all is_space (get_text nb)"
  shows "\<exists>tok. tok \<noteq> [] \<and> num_pages_of row = Inr tok"
proof -
  from assms(3) have "split (strip (get_text nb)) \<noteq> []"
    by (simp add: split_strip_Nil_iff)
  then obtain tok toks where t: "split (strip (get_text nb)) = tok # toks"
    by (cases "split (strip (get_text nb))") auto
  then have "tok \<noteq> []" by (rule split_token_nonempty)
  moreover have "num_pages_of row = Inr tok"
    using assms t by (simp add: num_pages_of_def find_on_def get_text_or_default_def)
  ultimately show ?thesis by blast
qed

lemma num_pages_of_error: "num_pages_of row = Inl e \<Longrightarrow> e = AttributeError \<or> e = IndexError"
  by (auto simp: num_pages_of_def find_on_def split: option.splits list.splits)

lemma num_pages_of_empty_iff:
  "num_pages_of row = Inr [] \<longleftrightarrow>
     (\<exists>cell. find_tag_class ''td'' ''field num_pages'' row = Some cell
             \<and> find_elem (is_tag ''nobr'') cell = None)"
  using split_token_nonempty
  by (auto simp: num_pages_of_def find_on_def get_text_or_default_def
           split: option.splits list.splits)

text \<open>The exception of \<open>process_review_row\<close> is the exception of the first field expression
  that raises, in the order of the statements.\<close>

lemma process_review_row_raises_in_field:
  assumes "process_review_row row = Inl e"
  shows "book_title_of row = Inl e \<or> date_started_of row = Inl e \<or> date_read_of row = Inl e
         \<or> goodreads_id_of row = Inl e \<or> author_of row = Inl e \<or> num_pages_of row = Inl e"
  using assms
  by (simp add: process_review_row_def and_then_def convert_date_never_raises
           split: sum.splits)

lemma process_review_row_needs_fields:
  assumes "process_review_row row = Inr r"
  shows "(\<exists>v. book_title_of row = Inr v) \<and> (\<exists>v. date_started_of row = Inr v)
         \<and> (\<exists>v. date_read_of row = Inr v) \<and> (\<exists>v. goodreads_id_of row = Inr v)
         \<and> (\<exists>v. author_of row = Inr v) \<and> (\<exists>v. num_pages_of row = Inr v)"
  using assms
  by (simp add: process_review_row_def and_then_def split: sum.splits)

lemma process_review_row_error_kinds:
  assumes "process_review_row row = Inl e"
  shows "e = AttributeError \<or> e = KeyError \<or> e = IndexError"
  using process_review_row_raises_in_field [OF assms]
        cell_text_error [of row _ _ e] goodreads_id_of_error [of row e] num_pages_of_error [of row e]
  unfolding book_title_of_def date_started_of_def date_read_of_def author_of_def
  by blast

lemma process_review_row_early_error:
  assumes "book_title_of row = Inl e1 \<or> date_started_of row = Inl e1 \<or> date_read_of row = Inl e1
           \<or> goodreads_id_of row = Inl e1 \<or> author_of row = Inl e1"
  shows "process_review_row row = Inl AttributeError \<or> process_review_row row = Inl KeyError"
proof -
  have k: "book_title_of row = Inl e \<Longrightarrow> e = AttributeError"
          "date_started_of row = Inl e \<Longrightarrow> e = AttributeError"
          "date_read_of row = Inl e \<Longrightarrow> e = AttributeError"
          "author_of row = Inl e \<Longrightarrow> e = AttributeError" for e
    unfolding book_title_of_def date_started_of_def date_read_of_def author_of_def
    by (rule cell_text_error, assumption)+
  show ?thesis
  proof (cases "book_title_of row")
    case (Inl e)
    then show ?thesis using k(1) [of e] by (simp add: process_review_row_def and_then_def)
  next
    case t: (Inr t)
    show ?thesis
    proof (cases "date_started_of row")
      case (Inl e)
      then show ?thesis using t k(2) [of e] by (simp add: process_review_row_def and_then_def)
    next
      case s: (Inr s)
      show ?thesis
      proof (cases "date_read_of row")
        case (Inl e)
        then show ?thesis using t s k(3) [of e]
          by (simp add: process_review_row_def and_then_def)
      next
        case r: (Inr r)
        show ?thesis
        proof (cases "goodreads_id_of row")
          case (Inl e)
          then show ?thesis using t s r goodreads_id_of_error [of row e]
            by (simp add: process_review_row_def and_then_def)
        next
          case g: (Inr g)
          from assms t s r g obtain e where a: "author_of row = Inl e" by auto
          obtain s' where s': "convert_date s = Inr s'" using convert_date_total by blast
          obtain r' where r': "convert_date r = Inr r'" using convert_date_total by blast
          show ?thesis using t s r g a s' r' k(4) [of e]
            by (simp add: process_review_row_def and_then_def)
        qed
      qed
    qed
  qed
qed

lemma process_review_row_last_error:
  assumes "book_title_of row = Inr t" "date_started_of row = Inr s" "date_read_of row = Inr r"
    and "goodreads_id_of row = Inr g" "author_of row = Inr a" "num_pages_of row = Inl e"
  shows "process_review_row row = Inl e"
proof -
  obtain s' where s': "convert_date s = Inr s'" using convert_date_total by blast
  obtain r' where r': "convert_date r = Inr r'" using convert_date_total by blast
  show ?thesis using assms s' r' by (simp add: process_review_row_def and_then_def)
qed

lemma dict_to_list_record:
  "dict_to_list fieldnames
     [(''Goodreads ID'', g), (''Book Title'', t), (''Date Started'', ds), (''Date Read'', dr),
      (''Author'', a), (''Average Rating'', r), (''Number of Pages'', n)]
   = Inr [g, t, ds, dr, a, r, n]"
  by (simp add: dict_to_list_def fieldnames_def get_or_def)

lemma process_rows_raise:
  "process_review_row row = Inl e \<Longrightarrow> process_rows f (row # rows) w = (Inl e, w)"
  by (simp add: and_then_def)

subsection \<open>Date conversion\<close>


















subsection \<open>The page-count field\<close>

text \<open>
  C10. When the page-count cell of a row holds a \<open>nobr\<close> element whose text is empty or
  all whitespace, taking the first token of the empty token list raises \<open>IndexError\<close> in
  the page-count expression, and \<open>process_review_row\<close> returns no record. The exception
  of \<open>process_review_row\<close> is that \<open>IndexError\<close> exactly when the statements before the
  page-count expression do not raise, that is when the title, date-started, date-read
  and author cells are present and the tooltip element, if there is one, has the
  attribute \<open>data-resource-id\<close>; otherwise it is the \<open>AttributeError\<close> or \<open>KeyError\<close> of the
  earlier statement. The page count is the empty string exactly when the cell is there
  and has no \<open>nobr\<close> element in it.
\<close>

theorem blank_nobr_raises:
  assumes "find_tag_class ''td'' ''field num_pages'' row = Some cell"
    and "find_elem (is_tag ''nobr'') cell = Some nb"
    and "list_all is_space (get_text nb)"
  shows "num_pages_of row = Inl IndexError
       \<and> (\<exists>e. process_review_row row = Inl e)
       \<and> (process_review_row row = Inl IndexError \<longleftrightarrow>
            find_tag_class ''td'' ''field title'' row \<noteq> None
            \<and> find_tag_class ''td'' ''field date_started'' row \<noteq> None
            \<and> find_tag_class ''td'' ''field date_read'' row \<noteq> None
            \<and> find_tag_class ''td'' ''field author'' row \<noteq> None
            \<and> (\<forall>d. find_tag_class ''div'' ''js-tooltipTrigger'' row = Some d
                  \<longrightarrow> map_of (attrs d) ''data-resource-id'' \<noteq> None))
       \<and> (process_review_row row \<noteq> Inl IndexError \<longrightarrow>
            process_review_row row = Inl AttributeError \<or> process_review_row row = Inl KeyError)
       \<and> (\<forall>r. num_pages_of r = Inr [] \<longleftrightarrow>
             (\<exists>c. find_tag_class ''td'' ''field num_pages'' r = Some c
                  \<and> find_elem (is_tag ''nobr'') c = None))"
proof -
  let ?early = "find_tag_class ''td'' ''field title'' row \<noteq> None
            \<and> find_tag_class ''td'' ''field date_started'' row \<noteq> None
            \<and> find_tag_class ''td'' ''field date_read'' row \<noteq> None
            \<and> find_tag_class ''td'' ''field author'' row \<noteq> None
            \<and> (\<forall>d. find_tag_class ''div'' ''js-tooltipTrigger'' row = Some d
                  \<longrightarrow> map_of (attrs d) ''data-resource-id'' \<noteq> None)"
  have np: "num_pages_of row = Inl IndexError"
    using assms by (rule num_pages_of_blank)
  have no_record: "\<exists>e. process_review_row row = Inl e"
  proof (cases "process_review_row row")
    case (Inl e)
    then show ?thesis by simp
  next
    case (Inr r)
    then show ?thesis using process_review_row_needs_fields [OF Inr] np by simp
  qed
  have kinds: "process_review_row row = Inl AttributeError \<or> process_review_row row = Inl KeyError"
    if "process_review_row row \<noteq> Inl IndexError"
    using no_record that process_review_row_error_kinds [of row] by auto
  have index: "process_review_row row = Inl IndexError" if e: ?early
  proof -
    from e obtain c1 c2 c3 c4 where
      c: "find_tag_class ''td'' ''field title'' row = Some c1"
         "find_tag_class ''td'' ''field date_started'' row = Some c2"
         "find_tag_class ''td'' ''field date_read'' row = Some c3"
         "find_tag_class ''td'' ''field author'' row = Some c4"
      by auto
    have g: "\<exists>g. goodreads_id_of row = Inr g"
    proof (cases "find_tag_class ''div'' ''js-tooltipTrigger'' row")
      case None
      then show ?thesis by (simp add: goodreads_id_of_absent)
    next
      case (Some d)
      then show ?thesis using e by (auto simp: goodreads_id_of_present)
    qed
    then obtain g where g: "goodreads_id_of row = Inr g" ..
    show ?thesis
      using process_review_row_last_error [OF _ _ _ g _ np]
            cell_text_present [OF c(1)] cell_text_present [OF c(2)]
            cell_text_present [OF c(3)] cell_text_present [OF c(4)]
      by (simp add: book_title_of_def date_started_of_def date_read_of_def author_of_def)
  qed
  have early: ?early if i: "process_review_row row = Inl IndexError"
  proof (rule ccontr)
    assume "\<not> ?early"
    then consider "find_tag_class ''td'' ''field title'' row = None"
      | "find_tag_class ''td'' ''field date_started'' row = None"
      | "find_tag_class ''td'' ''field date_read'' row = None"
      | "find_tag_class ''td'' ''field author'' row = None"
      | d where "find_tag_class ''div'' ''js-tooltipTrigger'' row = Some d"
          "map_of (attrs d) ''data-resource-id'' = None"
      by blast
    then have "\<exists>e1. book_title_of row = Inl e1 \<or> date_started_of row = Inl e1
                 \<or> date_read_of row = Inl e1 \<or> goodreads_id_of row = Inl e1
                 \<or> author_of row = Inl e1"
    proof cases
      case 1
      then show ?thesis
        by (intro exI [of _ AttributeError]) (simp add: book_title_of_def cell_text_absent)
    next
      case 2
      then show ?thesis
        by (intro exI [of _ AttributeError]) (simp add: date_started_of_def cell_text_absent)
    next
      case 3
      then show ?thesis
        by (intro exI [of _ AttributeError]) (simp add: date_read_of_def cell_text_absent)
    next
      case 4
      then show ?thesis
        by (intro exI [of _ AttributeError]) (simp add: author_of_def cell_text_absent)
    next
      case 5
      then show ?thesis
        by (intro exI [of _ KeyError]) (simp add: goodreads_id_of_present)
    qed
    then obtain e1 where "book_title_of row = Inl e1 \<or> date_started_of row = Inl e1
                 \<or> date_read_of row = Inl e1 \<or> goodreads_id_of row = Inl e1
                 \<or> author_of row = Inl e1" ..
    then have "process_review_row row = Inl AttributeError \<or> process_review_row row = Inl KeyError"
      by (rule process_review_row_early_error)
    then show False using i by simp
  qed
  have iff: "process_review_row row = Inl IndexError \<longleftrightarrow> ?early"
    using index early by (rule_tac iffI) assumption+
  have empty: "\<forall>r. num_pages_of r = Inr [] \<longleftrightarrow>
             (\<exists>c. find_tag_class ''td'' ''field num_pages'' r = Some c
                  \<and> find_elem (is_tag ''nobr'') c = None)"
    by (intro allI) (rule num_pages_of_empty_iff)
  from kinds have kinds_imp: "process_review_row row \<noteq> Inl IndexError \<longrightarrow>
            process_review_row row = Inl AttributeError \<or> process_review_row row = Inl KeyError"
    by (intro impI)
  show ?thesis
    by (intro conjI) (rule np no_record iff kinds_imp empty)+
qed

theorem blank_nobr_raises_witness:
  "num_pages_of blank_nobr_row = Inl IndexError
   \<and> process_review_row blank_nobr_row = Inl IndexError
   \<and> num_pages_of bare_row = Inr []"
proof -
  have 1: "find_tag_class ''td'' ''field num_pages'' blank_nobr_row
             = Some (td ''field num_pages'' [Element ''nobr'' [] [Text ''  '']])"
    by code_simp
  have 2: "find_elem (is_tag ''nobr'') (td ''field num_pages'' [Element ''nobr'' [] [Text ''  '']])
             = Some (Element ''nobr'' [] [Text ''  ''])"
    by code_simp
  have 3: "list_all is_space (get_text (Element ''nobr'' [] [Text ''  '']))"
    by code_simp
  have 4: "find_tag_class ''td'' ''field title'' blank_nobr_row \<noteq> None" by code_simp
  have 5: "find_tag_class ''td'' ''field date_started'' blank_nobr_row \<noteq> None" by code_simp
  have 6: "find_tag_class ''td'' ''field date_read'' blank_nobr_row \<noteq> None" by code_simp
  have 7: "find_tag_class ''td'' ''field author'' blank_nobr_row \<noteq> None" by code_simp
  have 8: "find_tag_class ''div'' ''js-tooltipTrigger'' blank_nobr_row = None" by code_simp
  have 9: "find_tag_class ''td'' ''field num_pages'' bare_row = Some (td ''field num_pages'' [])"
    by code_simp
  have 10: "find_elem (is_tag ''nobr'') (td ''field num_pages'' []) = None" by code_simp
  note t = blank_nobr_raises [OF 1 2 3]
  have a: "num_pages_of blank_nobr_row = Inl IndexError" using t by (elim conjE)
  have b: "process_review_row blank_nobr_row = Inl IndexError"
    using t 4 5 6 7 8 by simp
  have c: "num_pages_of bare_row = Inr []"
    using t 9 10 by simp
  show ?thesis using a b c by simp
qed

text \<open>A row with a blank page-count element and no title cell: the page-count
  expression would raise \<open>IndexError\<close>, but \<open>process_review_row\<close> raises the
  \<open>AttributeError\<close> of the title expression.\<close>

theorem blank_nobr_untitled:
  "find_tag_class ''td'' ''field num_pages'' untitled_blank_nobr_row
     = Some (td ''field num_pages'' [Element ''nobr'' [] [Text ''  '']])
   \<and> find_elem (is_tag ''nobr'') (td ''field num_pages'' [Element ''nobr'' [] [Text ''  '']])
       = Some (Element ''nobr'' [] [Text ''  ''])
   \<and> list_all is_space (get_text (Element ''nobr'' [] [Text ''  '']))
   \<and> num_pages_of untitled_blank_nobr_row = Inl IndexError
   \<and> process_review_row untitled_blank_nobr_row = Inl AttributeError"
  by code_simp

subsection \<open>The record of a row\<close>

lemma goodreads_id_of_ok:
  assumes "\<forall>d. find_tag_class ''div'' ''js-tooltipTrigger'' row = Some d
               \<longrightarrow> map_of (attrs d) ''data-resource-id'' \<noteq> None"
  shows "\<exists>gid. goodreads_id_of row = Inr gid
           \<and> (find_tag_class ''div'' ''js-tooltipTrigger'' row = None \<longrightarrow> gid = [])"
  using assms by (auto simp: goodreads_id_of_def getitem_def split: option.splits)

lemma num_pages_of_ok:
  assumes "find_tag_class ''td'' ''field num_pages'' row = Some cell"
    and "\<forall>n. find_elem (is_tag ''nobr'') cell = Some n \<longrightarrow> \<not> list_all is_space (get_text n)"
  shows "\<exists>pages. num_pages_of row = Inr pages
           \<and> (find_elem (is_tag ''nobr'') cell = None \<longrightarrow> pages = [])"
proof (cases "find_elem (is_tag ''nobr'') cell")
  case None
  then show ?thesis using assms(1) by (simp add: num_pages_of_no_nobr)
next
  case (Some n)
  then have "\<not> list_all is_space (get_text n)" using assms(2) by simp
  then show ?thesis using num_pages_of_text [OF assms(1) Some] Some by auto
qed

lemma process_review_row_complete:
  assumes title: "find_tag_class ''td'' ''field title'' row = Some c_title"
    and started: "find_tag_class ''td'' ''field date_started'' row = Some c_started"
    and read: "find_tag_class ''td'' ''field date_read'' row = Some c_read"
    and author: "find_tag_class ''td'' ''field author'' row = Some c_author"
    and pages: "find_tag_class ''td'' ''field num_pages'' row = Some c_pages"
    and tooltip: "\<forall>d. find_tag_class ''div'' ''js-tooltipTrigger'' row = Some d
                    \<longrightarrow> map_of (attrs d) ''data-resource-id'' \<noteq> None"
    and nobr: "\<forall>n. find_elem (is_tag ''nobr'') c_pages = Some n
                 \<longrightarrow> \<not> list_all is_space (get_text n)"
  shows "\<exists>gid t ds dr a r n.
           process_review_row row =
             Inr [(''Goodreads ID'', gid), (''Book Title'', t), (''Date Started'', ds),
                  (''Date Read'', dr), (''Author'', a), (''Average Rating'', r),
                  (''Number of Pages'', n)]
         \<and> (find_tag_class ''div'' ''js-tooltipTrigger'' row = None \<longrightarrow> gid = [])
         \<and> (find_elem (is_tag ''a'') c_title = None \<longrightarrow> t = [])
         \<and> (find_elem (\<lambda>x. is_tag ''span'' x \<and> has_class ''date_started_value'' x) c_started = None
              \<longrightarrow> ds = [])
         \<and> (find_elem (\<lambda>x. is_tag ''span'' x \<and> has_class ''date_read_value'' x) c_read = None
              \<longrightarrow> dr = [])
         \<and> (find_elem (is_tag ''a'') c_author = None \<longrightarrow> a = [])
         \<and> (find_tag_class ''td'' ''field avg_rating'' row = None \<longrightarrow> r = [])
         \<and> (find_elem (is_tag ''nobr'') c_pages = None \<longrightarrow> n = [])
         \<and> (\<forall>f rows w. process_rows f (row # rows) w
                         = process_rows f rows (write_row f [gid, t, ds, dr, a, r, n] w))"
proof -
  let ?t = "get_text_or_default (find_elem (is_tag ''a'') c_title) []"
  let ?ds0 = "get_text_or_default
                (find_elem (\<lambda>x. is_tag ''span'' x \<and> has_class ''date_started_value'' x) c_started) []"
  let ?dr0 = "get_text_or_default
                (find_elem (\<lambda>x. is_tag ''span'' x \<and> has_class ''date_read_value'' x) c_read) []"
  let ?a = "get_text_or_default (find_elem (is_tag ''a'') c_author) []"
  let ?r = "avg_rating_of row"
  have 1: "book_title_of row = Inr ?t"
    unfolding book_title_of_def using title by (rule cell_text_present)
  have 2: "date_started_of row = Inr ?ds0"
    unfolding date_started_of_def using started by (rule cell_text_present)
  have 3: "date_read_of row = Inr ?dr0"
    unfolding date_read_of_def using read by (rule cell_text_present)
  have 4: "author_of row = Inr ?a"
    unfolding author_of_def using author by (rule cell_text_present)
  from goodreads_id_of_ok [OF tooltip] obtain gid where g:
    "goodreads_id_of row = Inr gid
       \<and> (find_tag_class ''div'' ''js-tooltipTrigger'' row = None \<longrightarrow> gid = [])" ..
  from g have 5: "goodreads_id_of row = Inr gid" by (rule conjunct1)
  from g have gid_empty: "find_tag_class ''div'' ''js-tooltipTrigger'' row = None \<longrightarrow> gid = []"
    by (rule conjunct2)
  from num_pages_of_ok [OF pages nobr] obtain n where p:
    "num_pages_of row = Inr n \<and> (find_elem (is_tag ''nobr'') c_pages = None \<longrightarrow> n = [])" ..
  from p have 6: "num_pages_of row = Inr n" by (rule conjunct1)
  from p have n_empty: "find_elem (is_tag ''nobr'') c_pages = None \<longrightarrow> n = []"
    by (rule conjunct2)
  from convert_date_total obtain ds where 7: "convert_date ?ds0 = Inr ds" ..
  from convert_date_total obtain dr where 8: "convert_date ?dr0 = Inr dr" ..
  have ds_empty: "find_elem (\<lambda>x. is_tag ''span'' x \<and> has_class ''date_started_value'' x) c_started = None
            \<longrightarrow> ds = []"
    using 7 by (auto simp: get_text_or_default_None convert_date_empty)
  have dr_empty: "find_elem (\<lambda>x. is_tag ''span'' x \<and> has_class ''date_read_value'' x) c_read = None
            \<longrightarrow> dr = []"
    using 8 by (auto simp: get_text_or_default_None convert_date_empty)
  have rec: "process_review_row row =
             Inr [(''Goodreads ID'', gid), (''Book Title'', ?t), (''Date Started'', ds),
                  (''Date Read'', dr), (''Author'', ?a), (''Average Rating'', ?r),
                  (''Number of Pages'', n)]"
    by (simp add: process_review_row_def and_then_def 1 2 3 4 5 6 7 8)
  have loop: "process_rows f (row # rows) w
              = process_rows f rows (write_row f [gid, ?t, ds, dr, ?a, ?r, n] w)" for f rows w
    by (simp add: rec and_then_def dict_to_list_record)
  have t_empty: "find_elem (is_tag ''a'') c_title = None \<longrightarrow> ?t = []"
    and a_empty: "find_elem (is_tag ''a'') c_author = None \<longrightarrow> ?a = []"
    and r_empty: "find_tag_class ''td'' ''field avg_rating'' row = None \<longrightarrow> ?r = []"
    by (simp_all add: get_text_or_default_None avg_rating_of_def)
  show ?thesis
    apply (rule exI [of _ gid], rule exI [of _ "?t"], rule exI [of _ ds], rule exI [of _ dr])
    apply (rule exI [of _ "?a"], rule exI [of _ "?r"], rule exI [of _ n])
    apply (intro conjI allI)
            apply (rule rec)
           apply (rule gid_empty)
          apply (rule t_empty)
         apply (rule ds_empty)
        apply (rule dr_empty)
       apply (rule a_empty)
      apply (rule r_empty)
     apply (rule n_empty)
    apply (rule loop)
    done
qed

lemma process_review_row_incomplete:
  assumes "find_tag_class ''td'' ''field title'' row = None
           \<or> find_tag_class ''td'' ''field date_started'' row = None
           \<or> find_tag_class ''td'' ''field date_read'' row = None
           \<or> find_tag_class ''td'' ''field author'' row = None
           \<or> find_tag_class ''td'' ''field num_pages'' row = None
           \<or> (\<exists>d. find_tag_class ''div'' ''js-tooltipTrigger'' row = Some d
                  \<and> map_of (attrs d) ''data-resource-id'' = None)
           \<or> (\<exists>c n. find_tag_class ''td'' ''field num_pages'' row = Some c
                    \<and> find_elem (is_tag ''nobr'') c = Some n \<and> list_all is_space (get_text n))"
  shows "\<exists>e. (e = AttributeError \<or> e = KeyError \<or> e = IndexError)
              \<and> process_review_row row = Inl e
              \<and> (\<forall>f rows w. process_rows f (row # rows) w = (Inl e, w))"
proof -
  from assms consider "find_tag_class ''td'' ''field title'' row = None"
    | "find_tag_class ''td'' ''field date_started'' row = None"
    | "find_tag_class ''td'' ''field date_read'' row = None"
    | "find_tag_class ''td'' ''field author'' row = None"
    | "find_tag_class ''td'' ''field num_pages'' row = None"
    | d where "find_tag_class ''div'' ''js-tooltipTrigger'' row = Some d"
        "map_of (attrs d) ''data-resource-id'' = None"
    | c n where "find_tag_class ''td'' ''field num_pages'' row = Some c"
        "find_elem (is_tag ''nobr'') c = Some n" "list_all is_space (get_text n)"
    by (elim disjE exE conjE) auto
  then have field: "(\<exists>e. book_title_of row = Inl e) \<or> (\<exists>e. date_started_of row = Inl e)
                    \<or> (\<exists>e. date_read_of row = Inl e) \<or> (\<exists>e. goodreads_id_of row = Inl e)
                    \<or> (\<exists>e. author_of row = Inl e) \<or> (\<exists>e. num_pages_of row = Inl e)"
  proof cases
    case 1
    then show ?thesis by (simp add: book_title_of_def cell_text_absent)
  next
    case 2
    then show ?thesis by (simp add: date_started_of_def cell_text_absent)
  next
    case 3
    then show ?thesis by (simp add: date_read_of_def cell_text_absent)
  next
    case 4
    then show ?thesis by (simp add: author_of_def cell_text_absent)
  next
    case 5
    then show ?thesis by (simp add: num_pages_of_no_cell)
  next
    case 6
    then show ?thesis by (simp add: goodreads_id_of_present)
  next
    case 7
    then show ?thesis by (simp add: num_pages_of_blank)
  qed
  have "\<exists>e. process_review_row row = Inl e"
  proof (cases "process_review_row row")
    case (Inl e)
    then show ?thesis by simp
  next
    case (Inr r)
    then show ?thesis using process_review_row_needs_fields [OF Inr] field by auto
  qed
  then obtain e where e: "process_review_row row = Inl e" ..
  have "e = AttributeError \<or> e = KeyError \<or> e = IndexError"
    using e by (rule process_review_row_error_kinds)
  moreover have "\<forall>f rows w. process_rows f (row # rows) w = (Inl e, w)"
    using e by (intro allI) (rule process_rows_raise)
  ultimately show ?thesis using e by (intro exI [of _ e] conjI)
qed

text \<open>
  C1. A row in which the five cells searched without a guard (title, date started, date
  read, author, page count) are present, whose tooltip element, if there is one, carries
  the attribute \<open>data-resource-id\<close>, and whose \<open>nobr\<close> element, if there is one, has text
  that is not blank, yields exactly one record of the seven fields; each field whose inner
  element is absent is the empty string, independently of the others, and the loop over
  the rows of the page writes the record and goes on with the remaining rows. For every
  other row, \<open>process_review_row\<close> raises \<open>AttributeError\<close>, \<open>KeyError\<close> or \<open>IndexError\<close> and
  returns no record, and the loop over the rows of the page ends with that exception,
  with nothing written for the row or for the rows after it.
\<close>

theorem process_review_row_record:
  "(find_tag_class ''td'' ''field title'' row = Some c_title
    \<and> find_tag_class ''td'' ''field date_started'' row = Some c_started
    \<and> find_tag_class ''td'' ''field date_read'' row = Some c_read
    \<and> find_tag_class ''td'' ''field author'' row = Some c_author
    \<and> find_tag_class ''td'' ''field num_pages'' row = Some c_pages
    \<and> (\<forall>d. find_tag_class ''div'' ''js-tooltipTrigger'' row = Some d
           \<longrightarrow> map_of (attrs d) ''data-resource-id'' \<noteq> None)
    \<and> (\<forall>n. find_elem (is_tag ''nobr'') c_pages = Some n \<longrightarrow> \<not> list_all is_space (get_text n))
    \<longrightarrow>
      (\<exists>gid t ds dr a r n.
           process_review_row row =
             Inr [(''Goodreads ID'', gid), (''Book Title'', t), (''Date Started'', ds),
                  (''Date Read'', dr), (''Author'', a), (''Average Rating'', r),
                  (''Number of Pages'', n)]
         \<and> (find_tag_class ''div'' ''js-tooltipTrigger'' row = None \<longrightarrow> gid = [])
         \<and> (find_elem (is_tag ''a'') c_title = None \<longrightarrow> t = [])
         \<and> (find_elem (\<lambda>x. is_tag ''span'' x \<and> has_class ''date_started_value'' x) c_started = None
              \<longrightarrow> ds = [])
         \<and> (find_elem (\<lambda>x. is_tag ''span'' x \<and> has_class ''date_read_value'' x) c_read = None
              \<longrightarrow> dr = [])
         \<and> (find_elem (is_tag ''a'') c_author = None \<longrightarrow> a = [])
         \<and> (find_tag_class ''td'' ''field avg_rating'' row = None \<longrightarrow> r = [])
         \<and> (find_elem (is_tag ''nobr'') c_pages = None \<longrightarrow> n = [])
         \<and> (\<forall>f rows w. process_rows f (row # rows) w
                         = process_rows f rows (write_row f [gid, t, ds, dr, a, r, n] w))))
   \<and> (find_tag_class ''td'' ''field title'' row = None
      \<or> find_tag_class ''td'' ''field date_started'' row = None
      \<or> find_tag_class ''td'' ''field date_read'' row = None
      \<or> find_tag_class ''td'' ''field author'' row = None
      \<or> find_tag_class ''td'' ''field num_pages'' row = None
      \<or> (\<exists>d. find_tag_class ''div'' ''js-tooltipTrigger'' row = Some d
             \<and> map_of (attrs d) ''data-resource-id'' = None)
      \<or> (\<exists>c n. find_tag_class ''td'' ''field num_pages'' row = Some c
               \<and> find_elem (is_tag ''nobr'') c = Some n \<and> list_all is_space (get_text n))
    \<longrightarrow>
      (\<exists>e. (e = AttributeError \<or> e = KeyError \<or> e = IndexError)
            \<and> process_review_row row = Inl e
            \<and> (\<forall>f rows w. process_rows f (row # rows) w = (Inl e, w))))"
proof (intro conjI impI)
  assume "find_tag_class ''td'' ''field title'' row = Some c_title
    \<and> find_tag_class ''td'' ''field date_started'' row = Some c_started
    \<and> find_tag_class ''td'' ''field date_read'' row = Some c_read
    \<and> find_tag_class ''td'' ''field author'' row = Some c_author
    \<and> find_tag_class ''td'' ''field num_pages'' row = Some c_pages
    \<and> (\<forall>d. find_tag_class ''div'' ''js-tooltipTrigger'' row = Some d
           \<longrightarrow> map_of (attrs d) ''data-resource-id'' \<noteq> None)
    \<and> (\<forall>n. find_elem (is_tag ''nobr'') c_pages = Some n \<longrightarrow> \<not> list_all is_space (get_text n))"
  then show "\<exists>gid t ds dr a r n.
           process_review_row row =
             Inr [(''Goodreads ID'', gid), (''Book Title'', t), (''Date Started'', ds),
                  (''Date Read'', dr), (''Author'', a), (''Average Rating'', r),
                  (''Number of Pages'', n)]
         \<and> (find_tag_class ''div'' ''js-tooltipTrigger'' row = None \<longrightarrow> gid = [])
         \<and> (find_elem (is_tag ''a'') c_title = None \<longrightarrow> t = [])
         \<and> (find_elem (\<lambda>x. is_tag ''span'' x \<and> has_class ''date_started_value'' x) c_started = None
              \<longrightarrow> ds = [])
         \<and> (find_elem (\<lambda>x. is_tag ''span'' x \<and> has_class ''date_read_value'' x) c_read = None
              \<longrightarrow> dr = [])
         \<and> (find_elem (is_tag ''a'') c_author = None \<longrightarrow> a = [])
         \<and> (find_tag_class ''td'' ''field avg_rating'' row = None \<longrightarrow> r = [])
         \<and> (find_elem (is_tag ''nobr'') c_pages = None \<longrightarrow> n = [])
         \<and> (\<forall>f rows w. process_rows f (row # rows) w
                         = process_rows f rows (write_row f [gid, t, ds, dr, a, r, n] w))"
    by (elim conjE) (rule process_review_row_complete)
next
  assume "find_tag_class ''td'' ''field title'' row = None
      \<or> find_tag_class ''td'' ''field date_started'' row = None
      \<or> find_tag_class ''td'' ''field date_read'' row = None
      \<or> find_tag_class ''td'' ''field author'' row = None
      \<or> find_tag_class ''td'' ''field num_pages'' row = None
      \<or> (\<exists>d. find_tag_class ''div'' ''js-tooltipTrigger'' row = Some d
             \<and> map_of (attrs d) ''data-resource-id'' = None)
      \<or> (\<exists>c n. find_tag_class ''td'' ''field num_pages'' row = Some c
               \<and> find_elem (is_tag ''nobr'') c = Some n \<and> list_all is_space (get_text n))"
  then show "\<exists>e. (e = AttributeError \<or> e = KeyError \<or> e = IndexError)
            \<and> process_review_row row = Inl e
            \<and> (\<forall>f rows w. process_rows f (row # rows) w = (Inl e, w))"
    by (rule process_review_row_incomplete)
qed

theorem process_review_row_record_witness:
  "(\<exists>gid t ds dr a r n.
      process_review_row full_row =
        Inr [(''Goodreads ID'', gid), (''Book Title'', t), (''Date Started'', ds),
             (''Date Read'', dr), (''Author'', a), (''Average Rating'', r),
             (''Number of Pages'', n)]
      \<and> process_rows ''out.tsv'' [full_row] world0
          = (Inr (), write_row ''out.tsv'' [gid, t, ds, dr, a, r, n] world0))
   \<and> process_review_row bare_row =
       Inr [(''Goodreads ID'', []), (''Book Title'', []), (''Date Started'', []), (''Date Read'', []),
            (''Author'', []), (''Average Rating'', []), (''Number of Pages'', [])]
   \<and> process_rows ''out.tsv'' [bare_row, bare_row] world0
       = (Inr (), write_row ''out.tsv'' [[], [], [], [], [], [], []]
                    (write_row ''out.tsv'' [[], [], [], [], [], [], []] world0))
   \<and> process_review_row bad_tooltip_row = Inl KeyError
   \<and> process_rows ''out.tsv'' [bad_tooltip_row, full_row] world0 = (Inl KeyError, world0)"
proof -
  let ?title = "td ''field title'' [Element ''div'' [(''class'', ''value'')] [anchor '' Dune '']]"
  let ?started = "td ''field date_started''
          [Element ''span'' [(''class'', ''date_started_value'')] [Text ''Jan 5, 2023'']]"
  let ?read = "td ''field date_read''
          [Element ''span'' [(''class'', ''date_read_value'')] [Text ''not set'']]"
  let ?author = "td ''field author'' [anchor ''Herbert, Frank'']"
  let ?nobr = "Element ''nobr'' [] [Text '' 612 '', Element ''span'' [] [Text ''pp'']]"
  let ?pages = "td ''field num_pages'' [?nobr]"
  let ?tip = "Element ''div'' [(''class'', ''js-tooltipTrigger book''),
                              (''data-resource-id'', ''44767458'')] []"
  have cells: "find_tag_class ''td'' ''field title'' full_row = Some ?title
    \<and> find_tag_class ''td'' ''field date_started'' full_row = Some ?started
    \<and> find_tag_class ''td'' ''field date_read'' full_row = Some ?read
    \<and> find_tag_class ''td'' ''field author'' full_row = Some ?author
    \<and> find_tag_class ''td'' ''field num_pages'' full_row = Some ?pages"
    by code_simp
  have tip: "find_tag_class ''div'' ''js-tooltipTrigger'' full_row = Some ?tip" by code_simp
  have tip_id: "map_of (attrs ?tip) ''data-resource-id'' \<noteq> None" by code_simp
  have nobr: "find_elem (is_tag ''nobr'') ?pages = Some ?nobr" by code_simp
  have nonblank: "\<not> list_all is_space (get_text ?nobr)" by code_simp
  have hyp: "find_tag_class ''td'' ''field title'' full_row = Some ?title
    \<and> find_tag_class ''td'' ''field date_started'' full_row = Some ?started
    \<and> find_tag_class ''td'' ''field date_read'' full_row = Some ?read
    \<and> find_tag_class ''td'' ''field author'' full_row = Some ?author
    \<and> find_tag_class ''td'' ''field num_pages'' full_row = Some ?pages
    \<and> (\<forall>d. find_tag_class ''div'' ''js-tooltipTrigger'' full_row = Some d
           \<longrightarrow> map_of (attrs d) ''data-resource-id'' \<noteq> None)
    \<and> (\<forall>n. find_elem (is_tag ''nobr'') ?pages = Some n \<longrightarrow> \<not> list_all is_space (get_text n))"
    using cells tip tip_id nobr nonblank by simp
  have full: "\<exists>gid t ds dr a r n.
      process_review_row full_row =
        Inr [(''Goodreads ID'', gid), (''Book Title'', t), (''Date Started'', ds),
             (''Date Read'', dr), (''Author'', a), (''Average Rating'', r),
             (''Number of Pages'', n)]
      \<and> process_rows ''out.tsv'' [full_row] world0
          = (Inr (), write_row ''out.tsv'' [gid, t, ds, dr, a, r, n] world0)"
    using process_review_row_record [of full_row ?title ?started ?read ?author ?pages,
            THEN conjunct1, THEN mp, OF hyp]
    by (elim exE conjE) (intro exI conjI, assumption, simp)
  have 1: "find_tag_class ''td'' ''field title'' bare_row = Some (td ''field title'' [])
    \<and> find_tag_class ''td'' ''field date_started'' bare_row = Some (td ''field date_started'' [])
    \<and> find_tag_class ''td'' ''field date_read'' bare_row = Some (td ''field date_read'' [])
    \<and> find_tag_class ''td'' ''field author'' bare_row = Some (td ''field author'' [])
    \<and> find_tag_class ''td'' ''field num_pages'' bare_row = Some (td ''field num_pages'' [])"
    by code_simp
  have 2: "find_tag_class ''div'' ''js-tooltipTrigger'' bare_row = None" by code_simp
  have 3: "find_elem (is_tag ''nobr'') (td ''field num_pages'' []) = None" by code_simp
  have b: "find_elem (is_tag ''a'') (td ''field title'' []) = None" by code_simp
  have c: "find_elem (\<lambda>x. is_tag ''span'' x \<and> has_class ''date_started_value'' x)
             (td ''field date_started'' []) = None" by code_simp
  have d: "find_elem (\<lambda>x. is_tag ''span'' x \<and> has_class ''date_read_value'' x)
             (td ''field date_read'' []) = None" by code_simp
  have e: "find_elem (is_tag ''a'') (td ''field author'' []) = None" by code_simp
  have f: "find_tag_class ''td'' ''field avg_rating'' bare_row = None" by code_simp
  have hyp_bare: "find_tag_class ''td'' ''field title'' bare_row = Some (td ''field title'' [])
    \<and> find_tag_class ''td'' ''field date_started'' bare_row = Some (td ''field date_started'' [])
    \<and> find_tag_class ''td'' ''field date_read'' bare_row = Some (td ''field date_read'' [])
    \<and> find_tag_class ''td'' ''field author'' bare_row = Some (td ''field author'' [])
    \<and> find_tag_class ''td'' ''field num_pages'' bare_row = Some (td ''field num_pages'' [])
    \<and> (\<forall>d. find_tag_class ''div'' ''js-tooltipTrigger'' bare_row = Some d
           \<longrightarrow> map_of (attrs d) ''data-resource-id'' \<noteq> None)
    \<and> (\<forall>n. find_elem (is_tag ''nobr'') (td ''field num_pages'' []) = Some n
           \<longrightarrow> \<not> list_all is_space (get_text n))"
    using 1 2 3 by simp
  have bare: "process_review_row bare_row =
       Inr [(''Goodreads ID'', []), (''Book Title'', []), (''Date Started'', []), (''Date Read'', []),
            (''Author'', []), (''Average Rating'', []), (''Number of Pages'', [])]
     \<and> (\<forall>f rows w. process_rows f (bare_row # rows) w
           = process_rows f rows (write_row f [[], [], [], [], [], [], []] w))"
    using process_review_row_record
            [of bare_row "td ''field title'' []" "td ''field date_started'' []"
                "td ''field date_read'' []" "td ''field author'' []" "td ''field num_pages'' []",
             THEN conjunct1, THEN mp, OF hyp_bare]
          2 3 b c d e f
    by (elim exE conjE) simp
  have 4: "find_tag_class ''div'' ''js-tooltipTrigger'' bad_tooltip_row
             = Some (Element ''div'' [(''class'', ''js-tooltipTrigger'')] [])
           \<and> map_of (attrs (Element ''div'' [(''class'', ''js-tooltipTrigger'')] []))
                 ''data-resource-id'' = None"
    by code_simp
  have 5: "process_review_row bad_tooltip_row = Inl KeyError" by code_simp
  have hyp_bad: "find_tag_class ''td'' ''field title'' bad_tooltip_row = None
      \<or> find_tag_class ''td'' ''field date_started'' bad_tooltip_row = None
      \<or> find_tag_class ''td'' ''field date_read'' bad_tooltip_row = None
      \<or> find_tag_class ''td'' ''field author'' bad_tooltip_row = None
      \<or> find_tag_class ''td'' ''field num_pages'' bad_tooltip_row = None
      \<or> (\<exists>d. find_tag_class ''div'' ''js-tooltipTrigger'' bad_tooltip_row = Some d
             \<and> map_of (attrs d) ''data-resource-id'' = None)
      \<or> (\<exists>c n. find_tag_class ''td'' ''field num_pages'' bad_tooltip_row = Some c
               \<and> find_elem (is_tag ''nobr'') c = Some n \<and> list_all is_space (get_text n))"
    using 4 by simp
  have bad: "\<forall>f rows w. process_rows f (bad_tooltip_row # rows) w = (Inl KeyError, w)"
    using process_review_row_record [of bad_tooltip_row, THEN conjunct2, THEN mp, OF hyp_bad] 5
    by (elim exE conjE) simp
  from bare have bare_rec: "process_review_row bare_row =
       Inr [(''Goodreads ID'', []), (''Book Title'', []), (''Date Started'', []), (''Date Read'', []),
            (''Author'', []), (''Average Rating'', []), (''Number of Pages'', [])]"
    by (rule conjunct1)
  from bare have bare_loop: "\<forall>f rows w. process_rows f (bare_row # rows) w
           = process_rows f rows (write_row f [[], [], [], [], [], [], []] w)"
    by (rule conjunct2)
  have bare_run: "process_rows ''out.tsv'' [bare_row, bare_row] world0
       = (Inr (), write_row ''out.tsv'' [[], [], [], [], [], [], []]
                    (write_row ''out.tsv'' [[], [], [], [], [], [], []] world0))"
    by (simp only: bare_loop process_rows.simps(1))
  have bad_run: "process_rows ''out.tsv'' [bad_tooltip_row, full_row] world0 = (Inl KeyError, world0)"
    by (simp only: bad)
  show ?thesis
    by (intro conjI) (rule full bare_rec bare_run 5 bad_run)+
qed

text \<open>A row without any cell: the lookup on the missing title cell raises, no record is
  returned, and the row after it on the page is not written.\<close>

theorem process_review_row_cell_less:
  "process_review_row cell_less_row = Inl AttributeError
   \<and> fst (process_rows ''out.tsv'' [cell_less_row, full_row] world0) = Inl AttributeError
   \<and> files (snd (process_rows ''out.tsv'' [cell_less_row, full_row] world0)) ''out.tsv'' = None"
  by code_simp

end
